theory Spec2Isabelle
  imports Complex_Main "HOL-Library.Word"
begin

unbundle bit_operations_syntax

section \<open>Machine types\<close>

text \<open>
  The package is Windows-only; Go's \<open>int\<close> and \<open>uintptr\<close> are taken at their
  windows/amd64 width of 64 bits. Signed readings go through \<open>sint\<close> and the signed
  orders \<open><s\<close>, \<open>\<le>s\<close>. Go's \<open>float64\<close> is modelled by \<open>real\<close>: the only
  float operations of the package are the constant \<open>1.0\<close> and one division of a 16-bit
  integer by \<open>120.0\<close>, whose rounding to the nearest double is not modelled.
\<close>

type_synonym go_int = "64 word"
type_synonym uintptr = "64 word"
type_synonym uint16 = "16 word"
type_synonym uint32 = "32 word"
type_synonym int32 = "32 word"
type_synonym HHOOK = uintptr
type_synonym HWND = uintptr
type_synonym WPARAM = uintptr
type_synonym LRESULT = uintptr

text \<open>Go's \<open>error\<close> interface: \<open>None\<close> is \<open>nil\<close>, \<open>Some msg\<close> is \<open>errors.New(msg)\<close>.\<close>

type_synonym error = "string option"

definition errBlocked :: error where
  "errBlocked = Some ''SendInput returned 0, meaning input was blocked''"

section \<open>Event model\<close>

record KeyboardEvent =
  Key :: uint16
  Down :: bool
  Injected :: bool
  cancelled :: bool

text \<open>\<open>func (e *KeyboardEvent) Cancel()\<close>: the receiver is mutated in place; the model returns it.\<close>

definition KeyboardEvent_Cancel :: "KeyboardEvent \<Rightarrow> KeyboardEvent" where
  "KeyboardEvent_Cancel e = e\<lparr>cancelled := True\<rparr>"

record MouseEvent =
  Type :: go_int
  X :: go_int
  Y :: go_int
  Wheel :: real
  Injected :: bool
  cancelled :: bool

text \<open>\<open>func (e *MouseEvent) Cancel()\<close>.\<close>

definition MouseEvent_Cancel :: "MouseEvent \<Rightarrow> MouseEvent" where
  "MouseEvent_Cancel e = e\<lparr>cancelled := True\<rparr>"

text \<open>
  The \<open>MouseEventType\<close> constants are the window-message numbers of package \<open>w32\<close>
  (the Windows API values).
\<close>

definition WM_MOUSEMOVE :: WPARAM where "WM_MOUSEMOVE = 0x0200"
definition WM_LBUTTONDOWN :: WPARAM where "WM_LBUTTONDOWN = 0x0201"
definition WM_LBUTTONUP :: WPARAM where "WM_LBUTTONUP = 0x0202"
definition WM_RBUTTONDOWN :: WPARAM where "WM_RBUTTONDOWN = 0x0204"
definition WM_RBUTTONUP :: WPARAM where "WM_RBUTTONUP = 0x0205"
definition WM_MBUTTONDOWN :: WPARAM where "WM_MBUTTONDOWN = 0x0207"
definition WM_MBUTTONUP :: WPARAM where "WM_MBUTTONUP = 0x0208"
definition WM_MOUSEWHEEL :: WPARAM where "WM_MOUSEWHEEL = 0x020A"
definition WM_MOUSEHWHEEL :: WPARAM where "WM_MOUSEHWHEEL = 0x020E"

definition LeftMouseDown :: go_int where "LeftMouseDown = WM_LBUTTONDOWN"
definition LeftMouseUp :: go_int where "LeftMouseUp = WM_LBUTTONUP"
definition RightMouseDown :: go_int where "RightMouseDown = WM_RBUTTONDOWN"
definition RightMouseUp :: go_int where "RightMouseUp = WM_RBUTTONUP"
definition MiddleMouseDown :: go_int where "MiddleMouseDown = WM_MBUTTONDOWN"
definition MiddleMouseUp :: go_int where "MiddleMouseUp = WM_MBUTTONUP"
definition MouseMove :: go_int where "MouseMove = WM_MOUSEMOVE"
definition MouseWheel :: go_int where "MouseWheel = WM_MOUSEWHEEL"
definition MouseWheelHorizontal :: go_int where "MouseWheelHorizontal = WM_MOUSEHWHEEL"

section \<open>Raw hook records and the hook procedures\<close>

text \<open>
  The records the operating system hands to a low-level hook, as package \<open>w32\<close> declares
  them. The hook procedure receives a pointer to one in its \<open>l\<close> argument; the model
  passes the record itself.
\<close>

record KBDLLHOOKSTRUCT =
  VkCode :: uint32
  ScanCode :: uint32
  Flags :: uint32
  Time :: uint32
  DwExtraInfo :: uintptr

record POINT =
  X :: int32
  Y :: int32

record MSLLHOOKSTRUCT =
  Pt :: POINT
  MouseData :: uint32
  Flags :: uint32
  Time :: uint32
  DwExtraInfo :: uintptr

text \<open>
  A user callback receives a pointer to the event and may change it (from outside the
  package only through \<open>Cancel\<close> and the exported fields); it is a function from the
  event it is given to the event it leaves behind. \<open>None\<close> is the \<open>nil\<close> callback.
  The clipboard callback takes no argument; only its presence is observable here.
\<close>

type_synonym keyboard_callback = "KeyboardEvent \<Rightarrow> KeyboardEvent"
type_synonym mouse_callback = "MouseEvent \<Rightarrow> MouseEvent"
type_synonym clipboard_callback = "unit \<Rightarrow> unit"

text \<open>\<open>x != nil\<close> on a function value.\<close>

fun notNil :: "'a option \<Rightarrow> bool" where
  "notNil None = False"
| "notNil (Some f) = True"

text \<open>\<open>if callback != nil { callback(&e) }\<close>\<close>

fun invoke :: "('e \<Rightarrow> 'e) option \<Rightarrow> 'e \<Rightarrow> 'e" where
  "invoke None e = e"
| "invoke (Some f) e = f e"

text \<open>One call \<open>w32.CallNextHookEx(hook, code, w, l)\<close>, with its arguments.\<close>

datatype 'l next_hook_call = CallNextHookEx HHOOK go_int WPARAM 'l

text \<open>The event literal built inside the keyboard hook procedure.\<close>

definition keyboardHookEvent :: "KBDLLHOOKSTRUCT \<Rightarrow> KeyboardEvent" where
  "keyboardHookEvent kb =
     \<lparr>Key = ucast (VkCode kb),
      Down = (KBDLLHOOKSTRUCT.Flags kb AND 0x80 = 0),
      Injected = (KBDLLHOOKSTRUCT.Flags kb AND 0x10 \<noteq> 0),
      cancelled = False\<rparr>"

text \<open>
  The procedure passed to \<open>SetWindowsHookEx(WH_KEYBOARD_LL, ...)\<close>. \<open>next\<close> is what the
  operating system answers to \<open>CallNextHookEx\<close>. The result is the returned
  \<open>LRESULT\<close> and the \<open>CallNextHookEx\<close> calls made, in order.
\<close>

definition keyboardHookProc ::
  "keyboard_callback option \<Rightarrow> (go_int \<Rightarrow> WPARAM \<Rightarrow> KBDLLHOOKSTRUCT \<Rightarrow> LRESULT) \<Rightarrow>
   go_int \<Rightarrow> WPARAM \<Rightarrow> KBDLLHOOKSTRUCT \<Rightarrow> LRESULT \<times> KBDLLHOOKSTRUCT next_hook_call list" where
  "keyboardHookProc keyboardCallback next code w kb =
     (if 0 \<le>s code then
        (let e = invoke keyboardCallback (keyboardHookEvent kb)
         in if KeyboardEvent.cancelled e then (1, [])
            else (next code w kb, [CallNextHookEx 0 code w kb]))
      else (next code w kb, [CallNextHookEx 0 code w kb]))"

text \<open>
  \<open>MousePosition\<close>, given what \<open>w32.GetCursorPos()\<close> returned (\<open>x, y, ok\<close>).
\<close>

definition MousePosition :: "go_int \<times> go_int \<times> bool \<Rightarrow> go_int \<times> go_int \<times> error" where
  "MousePosition GetCursorPos =
     (case GetCursorPos of (x, y, ok) \<Rightarrow>
        if \<not> ok then (0, 0, Some ''GetCursorPos failed'') else (x, y, None))"

text \<open>The event literal built inside the mouse hook procedure.\<close>

definition mouseHookEvent :: "go_int \<times> go_int \<times> bool \<Rightarrow> WPARAM \<Rightarrow> MSLLHOOKSTRUCT \<Rightarrow> MouseEvent" where
  "mouseHookEvent GetCursorPos w mouse =
     (let wheel = (if w = WM_MOUSEWHEEL \<or> w = WM_MOUSEHWHEEL
                   then (let delta = (ucast (drop_bit 16 (MouseData mouse AND 0xFFFF0000)) :: 16 word)
                         in real_of_int (sint delta) / 120)
                   else 1);
          (x, y, err) = MousePosition GetCursorPos;
          (x, y) = (if err \<noteq> None
                    then (scast (POINT.X (Pt mouse)), scast (POINT.Y (Pt mouse)))
                    else (x, y))
      in \<lparr>Type = w, X = x, Y = y, Wheel = wheel,
          Injected = (MSLLHOOKSTRUCT.Flags mouse AND 1 \<noteq> 0),
          cancelled = False\<rparr>)"

text \<open>The procedure passed to \<open>SetWindowsHookEx(WH_MOUSE_LL, ...)\<close>.\<close>

definition mouseHookProc ::
  "mouse_callback option \<Rightarrow> (go_int \<Rightarrow> WPARAM \<Rightarrow> MSLLHOOKSTRUCT \<Rightarrow> LRESULT) \<Rightarrow>
   go_int \<times> go_int \<times> bool \<Rightarrow>
   go_int \<Rightarrow> WPARAM \<Rightarrow> MSLLHOOKSTRUCT \<Rightarrow> LRESULT \<times> MSLLHOOKSTRUCT next_hook_call list" where
  "mouseHookProc mouseCallback next GetCursorPos code w mouse =
     (if 0 \<le>s code then
        (let e = invoke mouseCallback (mouseHookEvent GetCursorPos w mouse)
         in if MouseEvent.cancelled e then (1, [])
            else (next code w mouse, [CallNextHookEx 0 code w mouse]))
      else (next code w mouse, [CallNextHookEx 0 code w mouse]))"

section \<open>Registration\<close>

record events =
  keyboard :: "keyboard_callback option"
  mouse :: "mouse_callback option"
  clipboard :: "clipboard_callback option"

definition allNil :: "events \<Rightarrow> bool" where
  "allNil e = (\<not> notNil (keyboard e) \<and> \<not> notNil (mouse e) \<and> \<not> notNil (clipboard e))"

text \<open>
  The process-wide \<open>messageLoop\<close>. \<open>newEvents\<close> is an unbuffered channel: it is
  modelled by the snapshots that senders are offering and the pump thread has not yet
  received, oldest first. A sender is blocked for as long as its snapshot is in the list;
  its call returns when the pump thread takes the snapshot out. The mutex \<open>mu\<close> only
  guards \<open>running\<close> and has no state of its own here.
\<close>

record messageLoop =
  running :: bool
  keyboardEvent :: "keyboard_callback option"
  mouseEvent :: "mouse_callback option"
  clipboardEvent :: "clipboard_callback option"
  newEvents :: "events list"

definition newMessageLoop :: messageLoop where
  "newMessageLoop =
     \<lparr>running = False, keyboardEvent = None, mouseEvent = None, clipboardEvent = None,
      newEvents = []\<rparr>"

text \<open>\<open>startLoop\<close>: \<open>go m.loop()\<close> starts the pump thread, whose state is \<open>loop_state\<close> below.\<close>

definition startLoop :: "messageLoop \<Rightarrow> messageLoop" where
  "startLoop m = (if \<not> running m then m\<lparr>running := True\<rparr> else m)"

text \<open>The snapshot literal \<open>events{keyboard: m.keyboardEvent, ...}\<close> of \<open>updateEvents\<close>.\<close>

definition snapshot :: "messageLoop \<Rightarrow> events" where
  "snapshot m =
     \<lparr>keyboard = keyboardEvent m, mouse = mouseEvent m, clipboard = clipboardEvent m\<rparr>"

definition updateEvents :: "messageLoop \<Rightarrow> messageLoop" where
  "updateEvents m =
     (let m1 = startLoop m in m1\<lparr>newEvents := newEvents m1 @ [snapshot m1]\<rparr>)"

definition setKeyboardEvent :: "keyboard_callback option \<Rightarrow> messageLoop \<Rightarrow> messageLoop" where
  "setKeyboardEvent f m = updateEvents (m\<lparr>keyboardEvent := f\<rparr>)"

definition setMouseEvent :: "mouse_callback option \<Rightarrow> messageLoop \<Rightarrow> messageLoop" where
  "setMouseEvent f m = updateEvents (m\<lparr>mouseEvent := f\<rparr>)"

definition setClipboardEvent :: "clipboard_callback option \<Rightarrow> messageLoop \<Rightarrow> messageLoop" where
  "setClipboardEvent f m = updateEvents (m\<lparr>clipboardEvent := f\<rparr>)"

text \<open>The exported entry points act on the package variable \<open>loop\<close>, passed explicitly.\<close>

definition SetOnKeyboardEvent :: "keyboard_callback option \<Rightarrow> messageLoop \<Rightarrow> messageLoop" where
  "SetOnKeyboardEvent f loop = setKeyboardEvent f loop"

definition SetOnMouseEvent :: "mouse_callback option \<Rightarrow> messageLoop \<Rightarrow> messageLoop" where
  "SetOnMouseEvent f loop = setMouseEvent f loop"

definition SetOnClipboardChange :: "clipboard_callback option \<Rightarrow> messageLoop \<Rightarrow> messageLoop" where
  "SetOnClipboardChange f loop = setClipboardEvent f loop"

section \<open>The pump thread\<close>

datatype hook_id = WH_KEYBOARD_LL | WH_MOUSE_LL

text \<open>
  The operating-system calls of \<open>messageLoop.loop\<close> that install or remove a hook or
  listener or pump the message queue, with their handle arguments. (Calls that only
  prepare an argument, such as \<open>GetModuleHandle\<close>, are not recorded.)
\<close>

datatype os_call =
    SetWindowsHookEx hook_id
  | UnhookWindowsHookEx HHOOK
  | RegisterClassEx
  | CreateWindowEx
  | AddClipboardFormatListener HWND
  | RemoveClipboardFormatListener HWND
  | DestroyWindow HWND
  | PeekMessage
  | TranslateMessage
  | DispatchMessage
  | Sleep int

text \<open>
  The local variables of \<open>messageLoop.loop\<close>, the control point (\<open>waiting\<close>: blocked in
  the receive inside \<open>for events.allNil()\<close>; otherwise at the \<open>select\<close>), and the
  operating-system calls made so far.
\<close>

record loop_state =
  keyboardCallback :: "keyboard_callback option"
  mouseCallback :: "mouse_callback option"
  clipboardCallback :: "clipboard_callback option"
  keyboardHook :: HHOOK
  mouseHook :: HHOOK
  clipboardWindow :: HWND
  waiting :: bool
  calls :: "os_call list"

definition loop_init :: loop_state where
  "loop_init =
     \<lparr>keyboardCallback = None, mouseCallback = None, clipboardCallback = None,
      keyboardHook = 0, mouseHook = 0, clipboardWindow = 0, waiting = False, calls = []\<rparr>"

text \<open>
  The operating system is a parameter \<open>os\<close>: the handle it returns to an installing
  call (\<open>SetWindowsHookEx\<close>, \<open>CreateWindowEx\<close>), given all recorded calls up to and
  including that one. 0 is a failed installation.
\<close>

type_synonym os = "os_call list \<Rightarrow> uintptr"

definition hookKeyboard :: "os \<Rightarrow> loop_state \<Rightarrow> loop_state" where
  "hookKeyboard os st =
     (let wantHook = notNil (keyboardCallback st);
          haveHook = (keyboardHook st \<noteq> 0)
      in if wantHook = haveHook then st
         else if wantHook then
           (let cs = calls st @ [SetWindowsHookEx WH_KEYBOARD_LL]
            in st\<lparr>keyboardHook := os cs, calls := cs\<rparr>)
         else if keyboardHook st \<noteq> 0 then
           st\<lparr>keyboardHook := 0, calls := calls st @ [UnhookWindowsHookEx (keyboardHook st)]\<rparr>
         else st)"

definition hookMouse :: "os \<Rightarrow> loop_state \<Rightarrow> loop_state" where
  "hookMouse os st =
     (let wantHook = notNil (mouseCallback st);
          haveHook = (mouseHook st \<noteq> 0)
      in if wantHook = haveHook then st
         else if wantHook then
           (let cs = calls st @ [SetWindowsHookEx WH_MOUSE_LL]
            in st\<lparr>mouseHook := os cs, calls := cs\<rparr>)
         else if mouseHook st \<noteq> 0 then
           st\<lparr>mouseHook := 0, calls := calls st @ [UnhookWindowsHookEx (mouseHook st)]\<rparr>
         else st)"

definition hookClipboard :: "os \<Rightarrow> loop_state \<Rightarrow> loop_state" where
  "hookClipboard os st =
     (let wantHook = notNil (clipboardCallback st);
          haveHook = (clipboardWindow st \<noteq> 0)
      in if wantHook = haveHook then st
         else if wantHook then
           (let cs = calls st @ [RegisterClassEx, CreateWindowEx];
                window = os cs
            in st\<lparr>clipboardWindow := window,
                  calls := cs @ [AddClipboardFormatListener window]\<rparr>)
         else
           st\<lparr>clipboardWindow := 0,
               calls := calls st @ [RemoveClipboardFormatListener (clipboardWindow st),
                                    DestroyWindow (clipboardWindow st)]\<rparr>)"

text \<open>
  The body of \<open>case events := <-m.newEvents\<close> once a snapshot with a callback is at hand:
  the three assignments, then \<open>hookMouse()\<close>, \<open>hookKeyboard()\<close>, \<open>hookClipboard()\<close>.
\<close>

definition reconcile :: "os \<Rightarrow> events \<Rightarrow> loop_state \<Rightarrow> loop_state" where
  "reconcile os evs st =
     hookClipboard os (hookKeyboard os (hookMouse os
       (st\<lparr>keyboardCallback := keyboard evs,
            mouseCallback := mouse evs,
            clipboardCallback := clipboard evs\<rparr>)))"

text \<open>
  A snapshot arrives, at the \<open>select\<close> or at the receive inside \<open>for events.allNil()\<close>:
  an all-nil snapshot sends the thread (back) to that inner receive, any other is
  reconciled and the thread returns to the \<open>select\<close>.
\<close>

definition receive :: "os \<Rightarrow> events \<Rightarrow> loop_state \<Rightarrow> loop_state" where
  "receive os evs st =
     (if allNil evs then st\<lparr>waiting := True\<rparr>
      else reconcile os evs (st\<lparr>waiting := False\<rparr>))"

text \<open>The \<open>default\<close> branch; \<open>hasMsg\<close> is what \<open>PeekMessage\<close> returned.\<close>

definition pumpMessage :: "bool \<Rightarrow> loop_state \<Rightarrow> loop_state" where
  "pumpMessage hasMsg st =
     st\<lparr>calls := calls st @
          (if hasMsg then [PeekMessage, TranslateMessage, DispatchMessage]
           else [PeekMessage, Sleep 1])\<rparr>"

text \<open>
  One step of the pump thread on the shared \<open>messageLoop\<close> and its own state: it takes
  the oldest offered snapshot if there is one (which lets that sender return); with none
  offered it stays blocked when it is waiting for a callback, and runs the \<open>default\<close>
  branch otherwise.
\<close>

fun loop_step :: "os \<Rightarrow> bool \<Rightarrow> messageLoop \<times> loop_state \<Rightarrow> messageLoop \<times> loop_state" where
  "loop_step os hasMsg (m, st) =
     (case newEvents m of
        evs # pending \<Rightarrow> (m\<lparr>newEvents := pending\<rparr>, receive os evs st)
      | [] \<Rightarrow> if waiting st then (m, st) else (m, pumpMessage hasMsg st))"

text \<open>A registration call as data, and its effect on the shared \<open>messageLoop\<close>.\<close>

datatype registration =
    OnKeyboardEvent "keyboard_callback option"
  | OnMouseEvent "mouse_callback option"
  | OnClipboardChange "clipboard_callback option"

fun register :: "registration \<Rightarrow> messageLoop \<Rightarrow> messageLoop" where
  "register (OnKeyboardEvent f) m = SetOnKeyboardEvent f m"
| "register (OnMouseEvent f) m = SetOnMouseEvent f m"
| "register (OnClipboardChange f) m = SetOnClipboardChange f m"

text \<open>
  A registration call by one caller thread, up to its return: the call offers its
  snapshot, and the pump thread's next step takes it.
\<close>

definition call_and_accept ::
  "os \<Rightarrow> messageLoop \<times> loop_state \<Rightarrow> registration \<Rightarrow> messageLoop \<times> loop_state" where
  "call_and_accept os s c = loop_step os False (register c (fst s), snd s)"

text \<open>A sequence of registration calls by one caller thread, each accepted in turn.\<close>

definition run_calls ::
  "os \<Rightarrow> messageLoop \<times> loop_state \<Rightarrow> registration list \<Rightarrow> messageLoop \<times> loop_state" where
  "run_calls os s cs = foldl (call_and_accept os) s cs"

text \<open>An operating system every installing call of which returns the handle \<open>h\<close>.\<close>

definition os_always :: "uintptr \<Rightarrow> os" where
  "os_always h cs = h"

section \<open>Typing text\<close>

text \<open>
  The input records of package \<open>w32\<close>; a field left out of a Go composite literal is 0.
\<close>

record KEYBDINPUT =
  Vk :: uint16
  Scan :: uint16
  Flags :: uint32
  Time :: uint32
  ExtraInfo :: uintptr

record MOUSEINPUT =
  Dx :: int32
  Dy :: int32
  MouseData :: uint32
  Flags :: uint32
  Time :: uint32
  ExtraInfo :: uintptr

datatype INPUT = KeyboardInput KEYBDINPUT | MouseInput MOUSEINPUT

definition KEYEVENTF_KEYUP :: uint32 where "KEYEVENTF_KEYUP = 0x0002"
definition KEYEVENTF_SCANCODE :: uint32 where "KEYEVENTF_SCANCODE = 0x0008"
definition MAPVK_VK_TO_VSC :: "64 word" where "MAPVK_VK_TO_VSC = 0"
definition VK_BACK :: "64 word" where "VK_BACK = 0x08"
definition VK_RETURN :: "64 word" where "VK_RETURN = 0x0D"
definition VK_NUMPAD0 :: "64 word" where "VK_NUMPAD0 = 0x60"
definition VK_NUMPAD1 :: "64 word" where "VK_NUMPAD1 = 0x61"
definition VK_NUMPAD2 :: "64 word" where "VK_NUMPAD2 = 0x62"
definition VK_NUMPAD3 :: "64 word" where "VK_NUMPAD3 = 0x63"
definition VK_NUMPAD4 :: "64 word" where "VK_NUMPAD4 = 0x64"
definition VK_NUMPAD5 :: "64 word" where "VK_NUMPAD5 = 0x65"
definition VK_NUMPAD6 :: "64 word" where "VK_NUMPAD6 = 0x66"
definition VK_NUMPAD7 :: "64 word" where "VK_NUMPAD7 = 0x67"
definition VK_NUMPAD8 :: "64 word" where "VK_NUMPAD8 = 0x68"
definition VK_NUMPAD9 :: "64 word" where "VK_NUMPAD9 = 0x69"
definition VK_LMENU :: "64 word" where "VK_LMENU = 0xA4"

text \<open>What the typing functions do to the outside, in order.\<close>

datatype typing_action = SendInput "INPUT list" | time_Sleep int

text \<open>
  The operating system seen by the typing functions: the key map of
  \<open>w32.MapVirtualKey\<close>, and what \<open>w32.SendInput\<close> returns (the number of inputs
  accepted; 0 means blocked), given all actions up to and including that call.
\<close>

record input_os =
  MapVirtualKey :: "64 word \<Rightarrow> 64 word \<Rightarrow> 64 word"
  SendInput_result :: "typing_action list \<Rightarrow> uint32"

text \<open>\<open>PressKey\<close>: the trace of actions is threaded through; the result is the error and the trace.\<close>

definition PressKey :: "input_os \<Rightarrow> uint16 \<Rightarrow> typing_action list \<Rightarrow> error \<times> typing_action list" where
  "PressKey os key tr =
     (let tr1 = tr @ [SendInput [KeyboardInput
                 \<lparr>Vk = key, Scan = 0, Flags = 0, Time = 0, ExtraInfo = 0\<rparr>]];
          n = SendInput_result os tr1
      in if n = 0 then (errBlocked, tr1) else (None, tr1))"

definition toScanCode :: "input_os \<Rightarrow> 64 word \<Rightarrow> uint16" where
  "toScanCode os vk = ucast (MapVirtualKey os vk MAPVK_VK_TO_VSC)"

text \<open>\<open>upDown\<close> returns a \<open>[2]w32.INPUT\<close>: the pair of its entries \<open>down\<close> (index 0) and \<open>up\<close> (index 1).\<close>

definition upDown :: "input_os \<Rightarrow> 64 word \<Rightarrow> INPUT \<times> INPUT" where
  "upDown os vk =
     (KeyboardInput \<lparr>Vk = 0, Scan = toScanCode os vk, Flags = KEYEVENTF_SCANCODE,
                     Time = 0, ExtraInfo = 0\<rparr>,
      KeyboardInput \<lparr>Vk = 0, Scan = toScanCode os vk,
                     Flags = KEYEVENTF_SCANCODE OR KEYEVENTF_KEYUP,
                     Time = 0, ExtraInfo = 0\<rparr>)"

definition alt :: "input_os \<Rightarrow> INPUT \<times> INPUT" where
  "alt os = upDown os VK_LMENU"

definition nums :: "input_os \<Rightarrow> (INPUT \<times> INPUT) list" where
  "nums os =
     [upDown os VK_NUMPAD0, upDown os VK_NUMPAD1, upDown os VK_NUMPAD2,
      upDown os VK_NUMPAD3, upDown os VK_NUMPAD4, upDown os VK_NUMPAD5,
      upDown os VK_NUMPAD6, upDown os VK_NUMPAD7, upDown os VK_NUMPAD8,
      upDown os VK_NUMPAD9]"

text \<open>
  A Go string is read here as the runes that \<open>range s\<close> yields (code points, as natural
  numbers). \<open>'\r'\<close> is 13, \<open>'\n'\<close> is 10 and \<open>'\b'\<close> is 8; all three are single
  bytes in UTF-8 and never part of a longer sequence, so \<open>strings.Replace\<close> on the
  bytes and the replacement on the runes agree.
\<close>

type_synonym rune = nat

text \<open>\<open>strings.Replace(s, "\r\n", "\r", -1)\<close>: every non-overlapping occurrence, left to right.\<close>

fun replace_crlf :: "rune list \<Rightarrow> rune list" where
  "replace_crlf (a # b # rs) =
     (if a = 13 \<and> b = 10 then 13 # replace_crlf rs else a # replace_crlf (b # rs))"
| "replace_crlf rs = rs"

text \<open>\<open>strings.Replace(s, "\n", "\r", -1)\<close>\<close>

definition replace_lf :: "rune list \<Rightarrow> rune list" where
  "replace_lf rs = map (\<lambda>r. if r = 10 then 13 else r) rs"

text \<open>\<open>fmt.Sprint(int(r))\<close> for a rune: its decimal digits, as the characters \<open>'0'\<close> (48) to \<open>'9'\<close>.\<close>

fun Sprint :: "nat \<Rightarrow> nat list" where
  "Sprint n = (if n < 10 then [48 + n] else Sprint (n div 10) @ [48 + n mod 10])"

text \<open>
  The keys sent for one ordinary rune: \<open>keys[:3]\<close> (Alt down, numpad 0 down and up), a
  down and an up for every decimal digit, then Alt up.
\<close>

definition rune_keys :: "input_os \<Rightarrow> rune \<Rightarrow> INPUT list" where
  "rune_keys os r =
     [fst (alt os), fst (nums os ! 0), snd (nums os ! 0)]
     @ concat (map (\<lambda>digit. let d = digit - 48 in [fst (nums os ! d), snd (nums os ! d)])
                   (Sprint r))
     @ [snd (alt os)]"

text \<open>The \<open>for _, r := range s\<close> loop of \<open>TypeWithDelay\<close>.\<close>

fun type_runes ::
  "input_os \<Rightarrow> int \<Rightarrow> rune list \<Rightarrow> typing_action list \<Rightarrow> error \<times> typing_action list" where
  "type_runes os delay [] tr = (None, tr)"
| "type_runes os delay (r # rs) tr =
     (if r = 13 then
        (case PressKey os (ucast VK_RETURN) tr of
           (Some err, tr1) \<Rightarrow> (Some err, tr1)
         | (None, tr1) \<Rightarrow> type_runes os delay rs (tr1 @ [time_Sleep delay]))
      else if r = 8 then
        (case PressKey os (ucast VK_BACK) tr of
           (Some err, tr1) \<Rightarrow> (Some err, tr1)
         | (None, tr1) \<Rightarrow> type_runes os delay rs (tr1 @ [time_Sleep delay]))
      else
        (let tr1 = tr @ [SendInput (rune_keys os r)]
         in if SendInput_result os tr1 = 0 then (errBlocked, tr1)
            else type_runes os delay rs (tr1 @ [time_Sleep delay])))"

text \<open>\<open>delay\<close> is a \<open>time.Duration\<close>, a number of nanoseconds.\<close>

definition TypeWithDelay ::
  "input_os \<Rightarrow> rune list \<Rightarrow> int \<Rightarrow> typing_action list \<Rightarrow> error \<times> typing_action list" where
  "TypeWithDelay os s delay tr = type_runes os delay (replace_lf (replace_crlf s)) tr"

definition Type :: "input_os \<Rightarrow> rune list \<Rightarrow> typing_action list \<Rightarrow> error \<times> typing_action list" where
  "Type os s tr = TypeWithDelay os s 1 tr"

section \<open>Capturing monitors\<close>

record Rectangle =
  X :: go_int
  Y :: go_int
  Width :: go_int
  Height :: go_int

text \<open>\<open>Monitor\<close> embeds \<open>Rectangle\<close>: its fields \<open>X\<close>, \<open>Y\<close>, \<open>Width\<close>, \<open>Height\<close> are the monitor's own.\<close>

record Monitor = Rectangle +
  WorkArea :: Rectangle
  Primary :: bool

text \<open>\<open>image.RGBA\<close>, with its \<open>Rect\<close> as the four coordinates \<open>Min.X, Min.Y, Max.X, Max.Y\<close>.\<close>

record RGBA =
  Pix :: "8 word list"
  Stride :: go_int
  Rect :: "go_int \<times> go_int \<times> go_int \<times> go_int"

text \<open>\<open>&image.RGBA{}\<close>\<close>

definition RGBA_zero :: RGBA where
  "RGBA_zero = \<lparr>Pix = [], Stride = 0, Rect = (0, 0, 0, 0)\<rparr>"

text \<open>A call either panics or returns; an \<open>image.Image\<close> is \<open>None\<close> when it is \<open>nil\<close>.\<close>

datatype 'a outcome = Panic string | Return 'a

type_synonym capture = "go_int \<Rightarrow> go_int \<Rightarrow> go_int \<Rightarrow> go_int \<Rightarrow> (RGBA option \<times> error) outcome"

text \<open>
  \<open>CaptureScreen(x, y, width, height)\<close> reads the pixels of that screen area through GDI
  calls of package \<open>w32\<close> and unsafe memory; what it returns for an area is the
  parameter \<open>CaptureScreen\<close> of the functions below.
\<close>

definition CaptureScreenRect :: "capture \<Rightarrow> Rectangle \<Rightarrow> (RGBA option \<times> error) outcome" where
  "CaptureScreenRect CaptureScreen r =
     CaptureScreen (Rectangle.X r) (Rectangle.Y r) (Width r) (Height r)"

text \<open>The \<open>for _, m := range monitors\<close> loop of \<open>CaptureMonitors\<close> on the four hull variables.\<close>

fun hull_loop ::
  "Monitor list \<Rightarrow> go_int \<times> go_int \<times> go_int \<times> go_int \<Rightarrow> go_int \<times> go_int \<times> go_int \<times> go_int" where
  "hull_loop [] h = h"
| "hull_loop (m # ms) (hullLeft, hullTop, hullRight, hullBottom) =
     (let left = Rectangle.X m;
          top = Rectangle.Y m;
          right = Rectangle.X m + Width m;
          bottom = Rectangle.Y m + Height m;
          hullLeft = (if left <s hullLeft then left else hullLeft);
          hullRight = (if hullRight <s right then right else hullRight);
          hullTop = (if top <s hullTop then top else hullTop);
          hullBottom = (if hullBottom <s bottom then bottom else hullBottom)
      in hull_loop ms (hullLeft, hullTop, hullRight, hullBottom))"

definition CaptureMonitors :: "capture \<Rightarrow> Monitor list \<Rightarrow> (RGBA option \<times> error) outcome" where
  "CaptureMonitors CaptureScreen monitors =
     (case monitors of
        [] \<Rightarrow> Return (Some RGBA_zero, Some ''now monitor given'')
      | m0 # _ \<Rightarrow>
          (case hull_loop monitors
                  (Rectangle.X m0, Rectangle.Y m0,
                   Rectangle.X m0 + Width m0, Rectangle.Y m0 + Height m0) of
             (hullLeft, hullTop, hullRight, hullBottom) \<Rightarrow>
               CaptureScreenRect CaptureScreen
                 \<lparr>X = hullLeft, Y = hullTop,
                  Width = hullRight - hullLeft, Height = hullBottom - hullTop\<rparr>))"

section \<open>The event model\<close>

lemma Cancel_k_funpow: "(KeyboardEvent_Cancel ^^ Suc n) k = k\<lparr>KeyboardEvent.cancelled := True\<rparr>"
  by (induction n) (simp_all add: KeyboardEvent_Cancel_def)

lemma Cancel_m_funpow: "(MouseEvent_Cancel ^^ Suc n) e = e\<lparr>MouseEvent.cancelled := True\<rparr>"
  by (induction n) (simp_all add: MouseEvent_Cancel_def)

text \<open>
  Claim C6. Calling \<open>Cancel\<close> on a \<open>KeyboardEvent\<close> or a \<open>MouseEvent\<close> one or more
  times (\<open>Suc n\<close> times) leaves the cancellation flag true; any number of calls has the
  effect of one, and a second call changes nothing. \<open>Cancel\<close> changes no other field:
  \<open>Key\<close>, \<open>Down\<close>, \<open>Injected\<close>, respectively \<open>Type\<close>, \<open>X\<close>, \<open>Y\<close>, \<open>Wheel\<close>,
  \<open>Injected\<close>, keep the values they had.
\<close>

theorem Cancel_idempotent_frame:
  "KeyboardEvent.cancelled ((KeyboardEvent_Cancel ^^ Suc n) k)
   \<and> (KeyboardEvent_Cancel ^^ Suc n) k = KeyboardEvent_Cancel k
   \<and> KeyboardEvent_Cancel (KeyboardEvent_Cancel k) = KeyboardEvent_Cancel k
   \<and> Key ((KeyboardEvent_Cancel ^^ Suc n) k) = Key k
   \<and> Down ((KeyboardEvent_Cancel ^^ Suc n) k) = Down k
   \<and> KeyboardEvent.Injected ((KeyboardEvent_Cancel ^^ Suc n) k) = KeyboardEvent.Injected k
   \<and> MouseEvent.cancelled ((MouseEvent_Cancel ^^ Suc n) e)
   \<and> (MouseEvent_Cancel ^^ Suc n) e = MouseEvent_Cancel e
   \<and> MouseEvent_Cancel (MouseEvent_Cancel e) = MouseEvent_Cancel e
   \<and> MouseEvent.Type ((MouseEvent_Cancel ^^ Suc n) e) = MouseEvent.Type e
   \<and> MouseEvent.X ((MouseEvent_Cancel ^^ Suc n) e) = MouseEvent.X e
   \<and> MouseEvent.Y ((MouseEvent_Cancel ^^ Suc n) e) = MouseEvent.Y e
   \<and> Wheel ((MouseEvent_Cancel ^^ Suc n) e) = Wheel e
   \<and> MouseEvent.Injected ((MouseEvent_Cancel ^^ Suc n) e) = MouseEvent.Injected e"
  unfolding Cancel_k_funpow Cancel_m_funpow
  by (simp add: KeyboardEvent_Cancel_def MouseEvent_Cancel_def)

theorem Cancel_idempotent_frame_witness:
  "(KeyboardEvent_Cancel ^^ Suc 2) \<lparr>Key = 65, Down = True, Injected = False, cancelled = False\<rparr>
     = \<lparr>Key = 65, Down = True, Injected = False, cancelled = True\<rparr>"
  using Cancel_idempotent_frame [where n = 2
      and k = "\<lparr>Key = 65, Down = True, Injected = False, cancelled = False\<rparr>"]
  by (simp add: KeyboardEvent_Cancel_def)

section \<open>The keyboard hook record\<close>

lemma and_0x80: "(x AND 0x80 = 0) = (\<not> bit x 7)" for x :: "32 word"
  using and_exp_eq_0_iff_not_bit [of x 7] by simp

lemma and_0x10: "(x AND 0x10 \<noteq> 0) = bit x 4" for x :: "32 word"
  using and_exp_eq_0_iff_not_bit [of x 4] by simp

text \<open>
  Claim C8. The \<open>KeyboardEvent\<close> built from a raw low-level keyboard record has
  \<open>Down\<close> true exactly when the release flag (bit 7, value \<open>0x80\<close>) of the record's
  flags is clear, \<open>Injected\<close> true exactly when the injected flag (bit 4, value
  \<open>0x10\<close>) is set, and \<open>Key\<close> equal to the virtual key code truncated to 16 bits.
\<close>

theorem keyboardHookEvent_fields:
  "Down (keyboardHookEvent kb) = (\<not> bit (KBDLLHOOKSTRUCT.Flags kb) 7)
   \<and> KeyboardEvent.Injected (keyboardHookEvent kb) = bit (KBDLLHOOKSTRUCT.Flags kb) 4
   \<and> Key (keyboardHookEvent kb) = ucast (VkCode kb)
   \<and> unat (Key (keyboardHookEvent kb)) = unat (VkCode kb) mod 2 ^ 16"
  by (simp add: keyboardHookEvent_def and_0x80 and_0x10 unsigned_ucast_eq take_bit_eq_mod)

section \<open>Cancellation in the hook procedures\<close>

text \<open>
  Claim C3. For a keyboard or mouse hook invocation with non-negative \<open>code\<close>: if the
  event is cancelled after the user callback has run, the procedure returns 1 (the
  suppression value) and makes no \<open>CallNextHookEx\<close> call; if the flag is clear (also when
  no callback is set), it makes exactly one \<open>CallNextHookEx\<close> call, with the arguments
  it was given, and returns that call's result.
\<close>

theorem hook_cancellation:
  "0 \<le>s code \<Longrightarrow>
     (KeyboardEvent.cancelled (invoke kcb (keyboardHookEvent kb)) \<longrightarrow>
        keyboardHookProc kcb knext code w kb = (1, []))
   \<and> (\<not> KeyboardEvent.cancelled (invoke kcb (keyboardHookEvent kb)) \<longrightarrow>
        keyboardHookProc kcb knext code w kb = (knext code w kb, [CallNextHookEx 0 code w kb]))
   \<and> (MouseEvent.cancelled (invoke mcb (mouseHookEvent cur w raw)) \<longrightarrow>
        mouseHookProc mcb mnext cur code w raw = (1, []))
   \<and> (\<not> MouseEvent.cancelled (invoke mcb (mouseHookEvent cur w raw)) \<longrightarrow>
        mouseHookProc mcb mnext cur code w raw = (mnext code w raw, [CallNextHookEx 0 code w raw]))"
  by (simp add: keyboardHookProc_def mouseHookProc_def)

theorem hook_cancellation_witness:
  "(0 :: 64 word) \<le>s 0
   \<and> KeyboardEvent.cancelled (invoke (Some KeyboardEvent_Cancel) (keyboardHookEvent
        \<lparr>VkCode = 65, ScanCode = 30, KBDLLHOOKSTRUCT.Flags = 0,
         KBDLLHOOKSTRUCT.Time = 0, KBDLLHOOKSTRUCT.DwExtraInfo = 0\<rparr>))
   \<and> keyboardHookProc (Some KeyboardEvent_Cancel) (\<lambda>c w l. 5) 0 256
        \<lparr>VkCode = 65, ScanCode = 30, KBDLLHOOKSTRUCT.Flags = 0,
         KBDLLHOOKSTRUCT.Time = 0, KBDLLHOOKSTRUCT.DwExtraInfo = 0\<rparr> = (1, [])
   \<and> \<not> KeyboardEvent.cancelled (invoke None (keyboardHookEvent
        \<lparr>VkCode = 65, ScanCode = 30, KBDLLHOOKSTRUCT.Flags = 0,
         KBDLLHOOKSTRUCT.Time = 0, KBDLLHOOKSTRUCT.DwExtraInfo = 0\<rparr>))
   \<and> keyboardHookProc None (\<lambda>c w l. 5) 0 256
        \<lparr>VkCode = 65, ScanCode = 30, KBDLLHOOKSTRUCT.Flags = 0,
         KBDLLHOOKSTRUCT.Time = 0, KBDLLHOOKSTRUCT.DwExtraInfo = 0\<rparr>
       = (5, [CallNextHookEx 0 0 256
        \<lparr>VkCode = 65, ScanCode = 30, KBDLLHOOKSTRUCT.Flags = 0,
         KBDLLHOOKSTRUCT.Time = 0, KBDLLHOOKSTRUCT.DwExtraInfo = 0\<rparr>])
   \<and> MouseEvent.cancelled (invoke (Some MouseEvent_Cancel) (mouseHookEvent (100, 200, True) 256
        \<lparr>Pt = \<lparr>POINT.X = 3, POINT.Y = 4\<rparr>, MSLLHOOKSTRUCT.MouseData = 0,
         MSLLHOOKSTRUCT.Flags = 0, MSLLHOOKSTRUCT.Time = 0, MSLLHOOKSTRUCT.DwExtraInfo = 0\<rparr>))
   \<and> mouseHookProc (Some MouseEvent_Cancel) (\<lambda>c w l. 7) (100, 200, True) 0 256
        \<lparr>Pt = \<lparr>POINT.X = 3, POINT.Y = 4\<rparr>, MSLLHOOKSTRUCT.MouseData = 0,
         MSLLHOOKSTRUCT.Flags = 0, MSLLHOOKSTRUCT.Time = 0, MSLLHOOKSTRUCT.DwExtraInfo = 0\<rparr> = (1, [])
   \<and> \<not> MouseEvent.cancelled (invoke None (mouseHookEvent (100, 200, True) 256
        \<lparr>Pt = \<lparr>POINT.X = 3, POINT.Y = 4\<rparr>, MSLLHOOKSTRUCT.MouseData = 0,
         MSLLHOOKSTRUCT.Flags = 0, MSLLHOOKSTRUCT.Time = 0, MSLLHOOKSTRUCT.DwExtraInfo = 0\<rparr>))
   \<and> mouseHookProc None (\<lambda>c w l. 7) (100, 200, True) 0 256
        \<lparr>Pt = \<lparr>POINT.X = 3, POINT.Y = 4\<rparr>, MSLLHOOKSTRUCT.MouseData = 0,
         MSLLHOOKSTRUCT.Flags = 0, MSLLHOOKSTRUCT.Time = 0, MSLLHOOKSTRUCT.DwExtraInfo = 0\<rparr>
       = (7, [CallNextHookEx 0 0 256
        \<lparr>Pt = \<lparr>POINT.X = 3, POINT.Y = 4\<rparr>, MSLLHOOKSTRUCT.MouseData = 0,
         MSLLHOOKSTRUCT.Flags = 0, MSLLHOOKSTRUCT.Time = 0, MSLLHOOKSTRUCT.DwExtraInfo = 0\<rparr>])"
  using hook_cancellation [where code = 0 and kcb = "Some KeyboardEvent_Cancel"
      and knext = "\<lambda>c w l. 5" and w = 256 and mcb = None and mnext = "\<lambda>c w l. 7"
      and cur = "(100, 200, True)"
      and kb = "\<lparr>VkCode = 65, ScanCode = 30, KBDLLHOOKSTRUCT.Flags = 0,
         KBDLLHOOKSTRUCT.Time = 0, KBDLLHOOKSTRUCT.DwExtraInfo = 0\<rparr>"
      and raw = "\<lparr>Pt = \<lparr>POINT.X = 3, POINT.Y = 4\<rparr>, MSLLHOOKSTRUCT.MouseData = 0,
         MSLLHOOKSTRUCT.Flags = 0, MSLLHOOKSTRUCT.Time = 0, MSLLHOOKSTRUCT.DwExtraInfo = 0\<rparr>"]
    hook_cancellation [where code = 0 and kcb = None
      and knext = "\<lambda>c w l. 5" and w = 256 and mcb = "Some MouseEvent_Cancel"
      and mnext = "\<lambda>c w l. 7" and cur = "(100, 200, True)"
      and kb = "\<lparr>VkCode = 65, ScanCode = 30, KBDLLHOOKSTRUCT.Flags = 0,
         KBDLLHOOKSTRUCT.Time = 0, KBDLLHOOKSTRUCT.DwExtraInfo = 0\<rparr>"
      and raw = "\<lparr>Pt = \<lparr>POINT.X = 3, POINT.Y = 4\<rparr>, MSLLHOOKSTRUCT.MouseData = 0,
         MSLLHOOKSTRUCT.Flags = 0, MSLLHOOKSTRUCT.Time = 0, MSLLHOOKSTRUCT.DwExtraInfo = 0\<rparr>"]
  by (simp add: keyboardHookEvent_def KeyboardEvent_Cancel_def MouseEvent_Cancel_def
        mouseHookEvent_def MousePosition_def Let_def)

section \<open>The mouse hook record\<close>

text \<open>
  Claim C5. The \<open>MouseEvent\<close> built from a mouse hook record has the coordinates that
  the cursor-position query returned when the query succeeded, and the coordinates of
  the raw record (sign-extended from 32 bits) when it failed. The failure is not
  visible to the callback: the event, and with it the whole hook invocation, is the one
  that a successful query returning the raw coordinates would have produced.
\<close>

theorem mouse_position_fallback:
  "(ok \<longrightarrow> MouseEvent.X (mouseHookEvent (x, y, ok) w raw) = x
          \<and> MouseEvent.Y (mouseHookEvent (x, y, ok) w raw) = y)
   \<and> (\<not> ok \<longrightarrow> MouseEvent.X (mouseHookEvent (x, y, ok) w raw) = scast (POINT.X (Pt raw))
            \<and> MouseEvent.Y (mouseHookEvent (x, y, ok) w raw) = scast (POINT.Y (Pt raw))
            \<and> sint (MouseEvent.X (mouseHookEvent (x, y, ok) w raw)) = sint (POINT.X (Pt raw))
            \<and> sint (MouseEvent.Y (mouseHookEvent (x, y, ok) w raw)) = sint (POINT.Y (Pt raw))
            \<and> mouseHookEvent (x, y, ok) w raw
                = mouseHookEvent (scast (POINT.X (Pt raw)), scast (POINT.Y (Pt raw)), True) w raw
            \<and> mouseHookProc mcb mnext (x, y, ok) code w raw
                = mouseHookProc mcb mnext (scast (POINT.X (Pt raw)), scast (POINT.Y (Pt raw)), True) code w raw)"
  by (simp add: mouseHookEvent_def mouseHookProc_def MousePosition_def Let_def sint_up_scast is_up)

theorem mouse_position_fallback_witness:
  "MouseEvent.X (mouseHookEvent (100, 200, True) 512
        \<lparr>Pt = \<lparr>POINT.X = - 3, POINT.Y = 4\<rparr>, MSLLHOOKSTRUCT.MouseData = 0,
         MSLLHOOKSTRUCT.Flags = 0, MSLLHOOKSTRUCT.Time = 0, MSLLHOOKSTRUCT.DwExtraInfo = 0\<rparr>) = 100
   \<and> MouseEvent.X (mouseHookEvent (0, 0, False) 512
        \<lparr>Pt = \<lparr>POINT.X = - 3, POINT.Y = 4\<rparr>, MSLLHOOKSTRUCT.MouseData = 0,
         MSLLHOOKSTRUCT.Flags = 0, MSLLHOOKSTRUCT.Time = 0, MSLLHOOKSTRUCT.DwExtraInfo = 0\<rparr>) = - 3
   \<and> MouseEvent.Y (mouseHookEvent (0, 0, False) 512
        \<lparr>Pt = \<lparr>POINT.X = - 3, POINT.Y = 4\<rparr>, MSLLHOOKSTRUCT.MouseData = 0,
         MSLLHOOKSTRUCT.Flags = 0, MSLLHOOKSTRUCT.Time = 0, MSLLHOOKSTRUCT.DwExtraInfo = 0\<rparr>) = 4"
  using mouse_position_fallback [where ok = True and x = 100 and y = 200 and w = 512
      and mcb = None and mnext = "\<lambda>c w l. 7" and code = 0
      and raw = "\<lparr>Pt = \<lparr>POINT.X = - 3, POINT.Y = 4\<rparr>, MSLLHOOKSTRUCT.MouseData = 0,
         MSLLHOOKSTRUCT.Flags = 0, MSLLHOOKSTRUCT.Time = 0, MSLLHOOKSTRUCT.DwExtraInfo = 0\<rparr>"]
    mouse_position_fallback [where ok = False and x = 0 and y = 0 and w = 512
      and mcb = None and mnext = "\<lambda>c w l. 7" and code = 0
      and raw = "\<lparr>Pt = \<lparr>POINT.X = - 3, POINT.Y = 4\<rparr>, MSLLHOOKSTRUCT.MouseData = 0,
         MSLLHOOKSTRUCT.Flags = 0, MSLLHOOKSTRUCT.Time = 0, MSLLHOOKSTRUCT.DwExtraInfo = 0\<rparr>"]
  by (simp add: mouseHookEvent_def MousePosition_def Let_def)

lemma low16_mask:
  "(ucast (y AND 0xFFFF) :: 16 word) = ucast y" for y :: "32 word"
proof -
  have m: "(0xFFFF :: 32 word) = mask 16" by (simp add: mask_eq_exp_minus_1)
  show ?thesis unfolding m by (rule bit_word_eqI) (simp add: bit_simps)
qed

lemma wheel_of_wheel_event:
  "w = WM_MOUSEWHEEL \<or> w = WM_MOUSEHWHEEL \<Longrightarrow>
     Wheel (mouseHookEvent cur w raw)
       = real_of_int (sint (ucast (drop_bit 16 (MSLLHOOKSTRUCT.MouseData raw)) :: 16 word)) / 120"
  by (cases cur) (auto simp add: mouseHookEvent_def Let_def low16_mask split: prod.splits)

text \<open>
  Claim C2. For a wheel event the \<open>Wheel\<close> field is the signed high word of
  \<open>MouseData\<close> divided by 120 (\<open>wheel_of_wheel_event\<close> above). For every other
  event type the claim, like the documentation of \<open>MouseEvent\<close>, says 0; the hook
  procedure initialises \<open>wheel := 1.0\<close> and never resets it, so a mouse move carries
  \<open>Wheel = 1\<close>.
\<close>

theorem wheel_of_mouse_move:
  "Wheel (mouseHookEvent (10, 20, True) WM_MOUSEMOVE
      \<lparr>Pt = \<lparr>POINT.X = 10, POINT.Y = 20\<rparr>, MouseData = 0, Flags = 0, Time = 0, DwExtraInfo = 0\<rparr>) = 1"
  by (simp add: mouseHookEvent_def MousePosition_def WM_MOUSEMOVE_def WM_MOUSEWHEEL_def WM_MOUSEHWHEEL_def)

section \<open>Registration\<close>

lemma updateEvents_fields:
  "keyboardEvent (updateEvents m) = keyboardEvent m"
  "mouseEvent (updateEvents m) = mouseEvent m"
  "clipboardEvent (updateEvents m) = clipboardEvent m"
  "running (updateEvents m)"
  "newEvents (updateEvents m) = newEvents m @ [snapshot m]"
  by (simp_all add: updateEvents_def startLoop_def snapshot_def Let_def)

text \<open>
  Claim C7. Each of \<open>SetOnKeyboardEvent\<close>, \<open>SetOnMouseEvent\<close>,
  \<open>SetOnClipboardChange\<close> sets its own callback field of the \<open>messageLoop\<close> and leaves
  the other two unchanged, then offers the snapshot of all three fields on the channel
  \<open>newEvents\<close>. The caller stays blocked while its snapshot is on the channel: with no
  other sender, the channel holds exactly this snapshot, and the pump thread's next step
  takes exactly it and empties the channel.
\<close>

theorem registration_frame:
  "keyboardEvent (SetOnKeyboardEvent kf m) = kf
   \<and> mouseEvent (SetOnKeyboardEvent kf m) = mouseEvent m
   \<and> clipboardEvent (SetOnKeyboardEvent kf m) = clipboardEvent m
   \<and> newEvents (SetOnKeyboardEvent kf m)
       = newEvents m @ [\<lparr>keyboard = kf, mouse = mouseEvent m, clipboard = clipboardEvent m\<rparr>]
   \<and> keyboardEvent (SetOnMouseEvent mf m) = keyboardEvent m
   \<and> mouseEvent (SetOnMouseEvent mf m) = mf
   \<and> clipboardEvent (SetOnMouseEvent mf m) = clipboardEvent m
   \<and> newEvents (SetOnMouseEvent mf m)
       = newEvents m @ [\<lparr>keyboard = keyboardEvent m, mouse = mf, clipboard = clipboardEvent m\<rparr>]
   \<and> keyboardEvent (SetOnClipboardChange cf m) = keyboardEvent m
   \<and> mouseEvent (SetOnClipboardChange cf m) = mouseEvent m
   \<and> clipboardEvent (SetOnClipboardChange cf m) = cf
   \<and> newEvents (SetOnClipboardChange cf m)
       = newEvents m @ [\<lparr>keyboard = keyboardEvent m, mouse = mouseEvent m, clipboard = cf\<rparr>]
   \<and> (newEvents m = [] \<longrightarrow>
        newEvents (register c m) = [snapshot (register c m)]
        \<and> loop_step os hasMsg (register c m, st)
            = ((register c m)\<lparr>newEvents := []\<rparr>, receive os (snapshot (register c m)) st))"
proof -
  have a: "newEvents m = [] \<longrightarrow>
        newEvents (register c m) = [snapshot (register c m)]
        \<and> loop_step os hasMsg (register c m, st)
            = ((register c m)\<lparr>newEvents := []\<rparr>, receive os (snapshot (register c m)) st)"
    by (cases c)
       (simp_all add: SetOnKeyboardEvent_def SetOnMouseEvent_def SetOnClipboardChange_def
          setKeyboardEvent_def setMouseEvent_def setClipboardEvent_def updateEvents_fields
          snapshot_def)
  show ?thesis
    using a
    by (simp add: SetOnKeyboardEvent_def SetOnMouseEvent_def SetOnClipboardChange_def
          setKeyboardEvent_def setMouseEvent_def setClipboardEvent_def updateEvents_fields
          snapshot_def)
qed

theorem registration_frame_witness:
  "newEvents newMessageLoop = []
   \<and> loop_step (os_always 7) False
        (register (OnKeyboardEvent (Some KeyboardEvent_Cancel)) newMessageLoop, loop_init)
     = ((register (OnKeyboardEvent (Some KeyboardEvent_Cancel)) newMessageLoop)\<lparr>newEvents := []\<rparr>,
        receive (os_always 7)
          \<lparr>keyboard = Some KeyboardEvent_Cancel, mouse = None, clipboard = None\<rparr> loop_init)"
  using registration_frame [where m = newMessageLoop
      and c = "OnKeyboardEvent (Some KeyboardEvent_Cancel)" and os = "os_always 7"
      and hasMsg = False and st = loop_init]
  by (simp add: newMessageLoop_def SetOnKeyboardEvent_def setKeyboardEvent_def
        updateEvents_def startLoop_def snapshot_def Let_def)

section \<open>Reconciliation of the hooks\<close>

lemma hookKeyboard_frame:
  "keyboardCallback (hookKeyboard os st) = keyboardCallback st"
  "mouseCallback (hookKeyboard os st) = mouseCallback st"
  "clipboardCallback (hookKeyboard os st) = clipboardCallback st"
  "mouseHook (hookKeyboard os st) = mouseHook st"
  "clipboardWindow (hookKeyboard os st) = clipboardWindow st"
  "waiting (hookKeyboard os st) = waiting st"
  by (simp_all add: hookKeyboard_def Let_def)

lemma hookMouse_frame:
  "keyboardCallback (hookMouse os st) = keyboardCallback st"
  "mouseCallback (hookMouse os st) = mouseCallback st"
  "clipboardCallback (hookMouse os st) = clipboardCallback st"
  "keyboardHook (hookMouse os st) = keyboardHook st"
  "clipboardWindow (hookMouse os st) = clipboardWindow st"
  "waiting (hookMouse os st) = waiting st"
  by (simp_all add: hookMouse_def Let_def)

lemma hookClipboard_frame:
  "keyboardCallback (hookClipboard os st) = keyboardCallback st"
  "mouseCallback (hookClipboard os st) = mouseCallback st"
  "clipboardCallback (hookClipboard os st) = clipboardCallback st"
  "keyboardHook (hookClipboard os st) = keyboardHook st"
  "mouseHook (hookClipboard os st) = mouseHook st"
  "waiting (hookClipboard os st) = waiting st"
  by (simp_all add: hookClipboard_def Let_def)

lemma hookKeyboard_present:
  "\<forall>h. os h \<noteq> 0 \<Longrightarrow> (keyboardHook (hookKeyboard os st) \<noteq> 0) = notNil (keyboardCallback st)"
  by (simp add: hookKeyboard_def Let_def)

lemma hookMouse_present:
  "\<forall>h. os h \<noteq> 0 \<Longrightarrow> (mouseHook (hookMouse os st) \<noteq> 0) = notNil (mouseCallback st)"
  by (simp add: hookMouse_def Let_def)

lemma hookClipboard_present:
  "\<forall>h. os h \<noteq> 0 \<Longrightarrow> (clipboardWindow (hookClipboard os st) \<noteq> 0) = notNil (clipboardCallback st)"
  by (simp add: hookClipboard_def Let_def)

lemma hookKeyboard_noop:
  "notNil (keyboardCallback st) = (keyboardHook st \<noteq> 0) \<Longrightarrow> hookKeyboard os st = st"
  by (simp add: hookKeyboard_def Let_def)

lemma hookMouse_noop:
  "notNil (mouseCallback st) = (mouseHook st \<noteq> 0) \<Longrightarrow> hookMouse os st = st"
  by (simp add: hookMouse_def Let_def)

lemma hookClipboard_noop:
  "notNil (clipboardCallback st) = (clipboardWindow st \<noteq> 0) \<Longrightarrow> hookClipboard os st = st"
  by (simp add: hookClipboard_def Let_def)

lemma reconcile_frame:
  "keyboardCallback (reconcile os evs st) = keyboard evs"
  "mouseCallback (reconcile os evs st) = mouse evs"
  "clipboardCallback (reconcile os evs st) = clipboard evs"
  "waiting (reconcile os evs st) = waiting st"
  by (simp_all add: reconcile_def hookKeyboard_frame hookMouse_frame hookClipboard_frame)

lemma reconcile_present:
  assumes "\<forall>h. os h \<noteq> 0"
  shows "(keyboardHook (reconcile os evs st) \<noteq> 0) = notNil (keyboard evs)"
    and "(mouseHook (reconcile os evs st) \<noteq> 0) = notNil (mouse evs)"
    and "(clipboardWindow (reconcile os evs st) \<noteq> 0) = notNil (clipboard evs)"
  using assms
  by (simp_all add: reconcile_def hookKeyboard_frame hookMouse_frame hookClipboard_frame
        hookKeyboard_present hookMouse_present hookClipboard_present)

lemma reconcile_noop:
  assumes "keyboardCallback st = keyboard evs" "mouseCallback st = mouse evs"
    "clipboardCallback st = clipboard evs"
    "notNil (keyboard evs) = (keyboardHook st \<noteq> 0)"
    "notNil (mouse evs) = (mouseHook st \<noteq> 0)"
    "notNil (clipboard evs) = (clipboardWindow st \<noteq> 0)"
  shows "reconcile os evs st = st"
proof -
  have "st\<lparr>keyboardCallback := keyboard evs, mouseCallback := mouse evs,
           clipboardCallback := clipboard evs\<rparr> = st"
    using assms(1-3) by simp
  then show ?thesis
    using assms(4-6) assms(1-3)
    by (simp add: reconcile_def hookMouse_noop hookKeyboard_noop hookClipboard_noop)
qed

lemma receive_settled:
  assumes "\<not> allNil evs"
    and "notNil (keyboard evs) = (keyboardHook (receive os evs st) \<noteq> 0)"
    and "notNil (mouse evs) = (mouseHook (receive os evs st) \<noteq> 0)"
    and "notNil (clipboard evs) = (clipboardWindow (receive os evs st) \<noteq> 0)"
  shows "receive os' evs (receive os evs st) = receive os evs st"
proof -
  let ?st1 = "reconcile os evs (st\<lparr>waiting := False\<rparr>)"
  have r: "receive os evs st = ?st1"
    using assms(1) by (simp add: receive_def)
  have w: "?st1\<lparr>waiting := False\<rparr> = ?st1"
    by (simp add: reconcile_frame)
  have "reconcile os' evs ?st1 = ?st1"
    using assms(2-4) unfolding r
    by (intro reconcile_noop) (simp_all add: reconcile_frame)
  then show ?thesis
    using assms(1) w by (simp add: receive_def)
qed

lemma receive_idem:
  assumes "\<forall>h. os h \<noteq> 0" "\<not> allNil evs"
  shows "receive os evs (receive os evs st) = receive os evs st"
  using assms(2)
  by (intro receive_settled) (simp_all add: receive_def reconcile_present [OF assms(1)])

text \<open>
  Claim C4, as stated, fails in its closing clause: when the installation fails (the
  operating system returns the handle 0), registering the same keyboard callback twice in
  a row makes a second \<open>SetWindowsHookEx\<close> call, because the handle is still absent at
  the second reconciliation.
\<close>

theorem failed_install_is_retried:
  "calls (snd (run_calls (os_always 0) (newMessageLoop, loop_init)
        [OnKeyboardEvent (Some KeyboardEvent_Cancel)]))
     = [SetWindowsHookEx WH_KEYBOARD_LL]
   \<and> calls (snd (run_calls (os_always 0) (newMessageLoop, loop_init)
        [OnKeyboardEvent (Some KeyboardEvent_Cancel),
         OnKeyboardEvent (Some KeyboardEvent_Cancel)]))
     = [SetWindowsHookEx WH_KEYBOARD_LL, SetWindowsHookEx WH_KEYBOARD_LL]
   \<and> keyboardHook (snd (run_calls (os_always 0) (newMessageLoop, loop_init)
        [OnKeyboardEvent (Some KeyboardEvent_Cancel)])) = 0"
  by (simp add: os_always_def newMessageLoop_def loop_init_def run_calls_def
        call_and_accept_def SetOnKeyboardEvent_def setKeyboardEvent_def updateEvents_def
        startLoop_def snapshot_def receive_def reconcile_def allNil_def hookKeyboard_def
        hookMouse_def hookClipboard_def Let_def)

text \<open>
  Claim C4, amended. For each of keyboard, mouse and clipboard, one run of the
  reconciliation leaves the state and the list of operating-system calls unchanged when
  callback presence equals handle presence; when the callback is present and the handle
  absent it makes the installing call(s) and records the handle the operating system
  returned; when the handle is present and the callback absent it makes the removing
  call(s) and clears the handle. Receiving the same snapshot (with a callback in it)
  twice in a row makes no further operating-system call the second time, provided the
  first run has made callback presence equal handle presence, as it does whenever the
  installations return handles.
\<close>

theorem reconciliation_cases:
  "(notNil (keyboardCallback st) = (keyboardHook st \<noteq> 0) \<longrightarrow> hookKeyboard os st = st)
   \<and> (notNil (keyboardCallback st) \<and> keyboardHook st = 0 \<longrightarrow>
        hookKeyboard os st
          = st\<lparr>keyboardHook := os (calls st @ [SetWindowsHookEx WH_KEYBOARD_LL]),
               calls := calls st @ [SetWindowsHookEx WH_KEYBOARD_LL]\<rparr>)
   \<and> (\<not> notNil (keyboardCallback st) \<and> keyboardHook st \<noteq> 0 \<longrightarrow>
        hookKeyboard os st
          = st\<lparr>keyboardHook := 0,
               calls := calls st @ [UnhookWindowsHookEx (keyboardHook st)]\<rparr>)
   \<and> (notNil (mouseCallback st) = (mouseHook st \<noteq> 0) \<longrightarrow> hookMouse os st = st)
   \<and> (notNil (mouseCallback st) \<and> mouseHook st = 0 \<longrightarrow>
        hookMouse os st
          = st\<lparr>mouseHook := os (calls st @ [SetWindowsHookEx WH_MOUSE_LL]),
               calls := calls st @ [SetWindowsHookEx WH_MOUSE_LL]\<rparr>)
   \<and> (\<not> notNil (mouseCallback st) \<and> mouseHook st \<noteq> 0 \<longrightarrow>
        hookMouse os st
          = st\<lparr>mouseHook := 0,
               calls := calls st @ [UnhookWindowsHookEx (mouseHook st)]\<rparr>)
   \<and> (notNil (clipboardCallback st) = (clipboardWindow st \<noteq> 0) \<longrightarrow> hookClipboard os st = st)
   \<and> (notNil (clipboardCallback st) \<and> clipboardWindow st = 0 \<longrightarrow>
        hookClipboard os st
          = st\<lparr>clipboardWindow := os (calls st @ [RegisterClassEx, CreateWindowEx]),
               calls := calls st @ [RegisterClassEx, CreateWindowEx,
                 AddClipboardFormatListener (os (calls st @ [RegisterClassEx, CreateWindowEx]))]\<rparr>)
   \<and> (\<not> notNil (clipboardCallback st) \<and> clipboardWindow st \<noteq> 0 \<longrightarrow>
        hookClipboard os st
          = st\<lparr>clipboardWindow := 0,
               calls := calls st @ [RemoveClipboardFormatListener (clipboardWindow st),
                                    DestroyWindow (clipboardWindow st)]\<rparr>)
   \<and> (\<not> allNil evs
        \<and> notNil (keyboard evs) = (keyboardHook (receive os evs st) \<noteq> 0)
        \<and> notNil (mouse evs) = (mouseHook (receive os evs st) \<noteq> 0)
        \<and> notNil (clipboard evs) = (clipboardWindow (receive os evs st) \<noteq> 0) \<longrightarrow>
        receive os evs (receive os evs st) = receive os evs st
        \<and> calls (receive os evs (receive os evs st)) = calls (receive os evs st))
   \<and> ((\<forall>h. os h \<noteq> 0) \<and> \<not> allNil evs \<longrightarrow>
        receive os evs (receive os evs st) = receive os evs st
        \<and> calls (receive os evs (receive os evs st)) = calls (receive os evs st))"
proof -
  have k: "notNil (keyboardCallback st) \<and> keyboardHook st = 0 \<longrightarrow>
        hookKeyboard os st
          = st\<lparr>keyboardHook := os (calls st @ [SetWindowsHookEx WH_KEYBOARD_LL]),
               calls := calls st @ [SetWindowsHookEx WH_KEYBOARD_LL]\<rparr>"
    "\<not> notNil (keyboardCallback st) \<and> keyboardHook st \<noteq> 0 \<longrightarrow>
        hookKeyboard os st
          = st\<lparr>keyboardHook := 0,
               calls := calls st @ [UnhookWindowsHookEx (keyboardHook st)]\<rparr>"
    by (simp_all add: hookKeyboard_def Let_def)
  have m: "notNil (mouseCallback st) \<and> mouseHook st = 0 \<longrightarrow>
        hookMouse os st
          = st\<lparr>mouseHook := os (calls st @ [SetWindowsHookEx WH_MOUSE_LL]),
               calls := calls st @ [SetWindowsHookEx WH_MOUSE_LL]\<rparr>"
    "\<not> notNil (mouseCallback st) \<and> mouseHook st \<noteq> 0 \<longrightarrow>
        hookMouse os st
          = st\<lparr>mouseHook := 0,
               calls := calls st @ [UnhookWindowsHookEx (mouseHook st)]\<rparr>"
    by (simp_all add: hookMouse_def Let_def)
  have c: "notNil (clipboardCallback st) \<and> clipboardWindow st = 0 \<longrightarrow>
        hookClipboard os st
          = st\<lparr>clipboardWindow := os (calls st @ [RegisterClassEx, CreateWindowEx]),
               calls := calls st @ [RegisterClassEx, CreateWindowEx,
                 AddClipboardFormatListener (os (calls st @ [RegisterClassEx, CreateWindowEx]))]\<rparr>"
    "\<not> notNil (clipboardCallback st) \<and> clipboardWindow st \<noteq> 0 \<longrightarrow>
        hookClipboard os st
          = st\<lparr>clipboardWindow := 0,
               calls := calls st @ [RemoveClipboardFormatListener (clipboardWindow st),
                                    DestroyWindow (clipboardWindow st)]\<rparr>"
    by (simp_all add: hookClipboard_def Let_def)
  have i: "(\<forall>h. os h \<noteq> 0) \<and> \<not> allNil evs \<longrightarrow>
        receive os evs (receive os evs st) = receive os evs st
        \<and> calls (receive os evs (receive os evs st)) = calls (receive os evs st)"
    using receive_idem [of os evs st] by simp
  have j: "\<not> allNil evs
        \<and> notNil (keyboard evs) = (keyboardHook (receive os evs st) \<noteq> 0)
        \<and> notNil (mouse evs) = (mouseHook (receive os evs st) \<noteq> 0)
        \<and> notNil (clipboard evs) = (clipboardWindow (receive os evs st) \<noteq> 0) \<longrightarrow>
        receive os evs (receive os evs st) = receive os evs st
        \<and> calls (receive os evs (receive os evs st)) = calls (receive os evs st)"
    using receive_settled [of evs os st os] by simp
  from k m c i j show ?thesis
    using hookKeyboard_noop [of st os] hookMouse_noop [of st os] hookClipboard_noop [of st os]
    by blast
qed

theorem reconciliation_cases_witness:
  "notNil (keyboardCallback (loop_init\<lparr>keyboardCallback := Some KeyboardEvent_Cancel\<rparr>))
   \<and> keyboardHook (loop_init\<lparr>keyboardCallback := Some KeyboardEvent_Cancel\<rparr>) = 0
   \<and> hookKeyboard (os_always 7) (loop_init\<lparr>keyboardCallback := Some KeyboardEvent_Cancel\<rparr>)
       = loop_init\<lparr>keyboardCallback := Some KeyboardEvent_Cancel, keyboardHook := 7,
                    calls := [SetWindowsHookEx WH_KEYBOARD_LL]\<rparr>
   \<and> \<not> notNil (mouseCallback (loop_init\<lparr>mouseHook := 9\<rparr>))
   \<and> mouseHook (loop_init\<lparr>mouseHook := 9\<rparr>) \<noteq> 0
   \<and> hookMouse (os_always 7) (loop_init\<lparr>mouseHook := 9\<rparr>)
       = loop_init\<lparr>calls := [UnhookWindowsHookEx 9]\<rparr>
   \<and> notNil (clipboardCallback loop_init) = (clipboardWindow loop_init \<noteq> 0)
   \<and> hookClipboard (os_always 7) loop_init = loop_init
   \<and> (\<forall>h. os_always 7 h \<noteq> 0)
   \<and> \<not> allNil \<lparr>keyboard = Some KeyboardEvent_Cancel, mouse = None, clipboard = None\<rparr>
   \<and> keyboardHook (receive (os_always 7)
         \<lparr>keyboard = Some KeyboardEvent_Cancel, mouse = None, clipboard = None\<rparr> loop_init) \<noteq> 0
   \<and> mouseHook (receive (os_always 7)
         \<lparr>keyboard = Some KeyboardEvent_Cancel, mouse = None, clipboard = None\<rparr> loop_init) = 0
   \<and> clipboardWindow (receive (os_always 7)
         \<lparr>keyboard = Some KeyboardEvent_Cancel, mouse = None, clipboard = None\<rparr> loop_init) = 0
   \<and> calls (receive (os_always 7)
         \<lparr>keyboard = Some KeyboardEvent_Cancel, mouse = None, clipboard = None\<rparr>
         (receive (os_always 7)
           \<lparr>keyboard = Some KeyboardEvent_Cancel, mouse = None, clipboard = None\<rparr> loop_init))
       = [SetWindowsHookEx WH_KEYBOARD_LL]"
  using reconciliation_cases [where os = "os_always 7"
      and st = "loop_init\<lparr>keyboardCallback := Some KeyboardEvent_Cancel\<rparr>"
      and evs = "\<lparr>keyboard = Some KeyboardEvent_Cancel, mouse = None, clipboard = None\<rparr>"]
    reconciliation_cases [where os = "os_always 7" and st = "loop_init\<lparr>mouseHook := 9\<rparr>"
      and evs = "\<lparr>keyboard = Some KeyboardEvent_Cancel, mouse = None, clipboard = None\<rparr>"]
    reconciliation_cases [where os = "os_always 7" and st = loop_init
      and evs = "\<lparr>keyboard = Some KeyboardEvent_Cancel, mouse = None, clipboard = None\<rparr>"]
  by (simp add: loop_init_def os_always_def allNil_def receive_def reconcile_def
        hookKeyboard_def hookMouse_def hookClipboard_def Let_def)

section \<open>Convergence of the handles\<close>

lemma register_snapshot:
  "snapshot (register c m) = last (newEvents (register c m))"
  "newEvents m = [] \<Longrightarrow> newEvents (register c m) = [snapshot (register c m)]"
  by (cases c;
      simp add: SetOnKeyboardEvent_def SetOnMouseEvent_def SetOnClipboardChange_def
          setKeyboardEvent_def setMouseEvent_def setClipboardEvent_def updateEvents_fields
          snapshot_def)+

lemma call_and_accept_empty:
  assumes "newEvents (fst s) = []"
  shows "call_and_accept os s c
           = ((register c (fst s))\<lparr>newEvents := []\<rparr>,
              receive os (snapshot (register c (fst s))) (snd s))"
  using register_snapshot(2) [OF assms, of c]
  by (simp add: call_and_accept_def)

lemma run_calls_snoc: "run_calls os s (cs @ [c]) = call_and_accept os (run_calls os s cs) c"
  by (simp add: run_calls_def)

lemma run_calls_channel_empty:
  "newEvents (fst s) = [] \<Longrightarrow> newEvents (fst (run_calls os s cs)) = []"
proof (induction cs rule: rev_induct)
  case Nil
  then show ?case by (simp add: run_calls_def)
next
  case (snoc c cs)
  then show ?case by (simp add: run_calls_snoc call_and_accept_empty)
qed

lemma blocked_pump_is_stuck:
  "waiting st \<Longrightarrow> newEvents m = [] \<Longrightarrow> loop_step os hasMsg (m, st) = (m, st)"
  by simp

text \<open>
  What the pump thread does keep. For every sequence of registration calls, each accepted
  by the pump thread, with a channel that was empty at the start and installations that
  return handles: after the last call has been accepted the channel is empty again, and
  if that call's snapshot has at least one callback, then for each category the handle
  is present if and only if the callback of the snapshot is present, and the thread is
  back at its \<open>select\<close>.
\<close>

lemma reconcile_converges:
  assumes "\<forall>h. os h \<noteq> 0" and "newEvents (fst s) = []"
  shows "let after = run_calls os s (cs @ [c])
         in newEvents (fst after) = []
            \<and> (\<not> allNil (snapshot (fst after)) \<longrightarrow>
                 (keyboardHook (snd after) \<noteq> 0) = notNil (keyboardEvent (fst after))
                 \<and> (mouseHook (snd after) \<noteq> 0) = notNil (mouseEvent (fst after))
                 \<and> (clipboardWindow (snd after) \<noteq> 0) = notNil (clipboardEvent (fst after))
                 \<and> \<not> waiting (snd after))"
proof -
  define before where "before = run_calls os s cs"
  define evs where "evs = snapshot (register c (fst before))"
  have e: "newEvents (fst before) = []"
    unfolding before_def using assms(2) by (rule run_calls_channel_empty)
  have a: "run_calls os s (cs @ [c])
             = ((register c (fst before))\<lparr>newEvents := []\<rparr>, receive os evs (snd before))"
    unfolding run_calls_snoc before_def [symmetric] evs_def
    using e by (rule call_and_accept_empty)
  have s: "snapshot ((register c (fst before))\<lparr>newEvents := []\<rparr>) = evs"
    by (simp add: evs_def snapshot_def)
  have f: "keyboardEvent (register c (fst before)) = keyboard evs"
    "mouseEvent (register c (fst before)) = mouse evs"
    "clipboardEvent (register c (fst before)) = clipboard evs"
    by (simp_all add: evs_def snapshot_def)
  show ?thesis
    unfolding Let_def a
    using s f reconcile_present [OF assms(1), of evs "(snd before)\<lparr>waiting := False\<rparr>"]
    by (simp add: receive_def reconcile_frame)
qed

text \<open>
  The sibling path: setting the keyboard callback to nil while a mouse callback is set
  is reconciled, and the keyboard hook is removed with \<open>UnhookWindowsHookEx\<close>.
\<close>

lemma sibling_path_unhooks:
  "keyboardHook (snd (run_calls (os_always 7) (newMessageLoop, loop_init)
        [OnKeyboardEvent (Some KeyboardEvent_Cancel), OnMouseEvent (Some MouseEvent_Cancel),
         OnKeyboardEvent None])) = 0
   \<and> mouseHook (snd (run_calls (os_always 7) (newMessageLoop, loop_init)
        [OnKeyboardEvent (Some KeyboardEvent_Cancel), OnMouseEvent (Some MouseEvent_Cancel),
         OnKeyboardEvent None])) = 7
   \<and> calls (snd (run_calls (os_always 7) (newMessageLoop, loop_init)
        [OnKeyboardEvent (Some KeyboardEvent_Cancel), OnMouseEvent (Some MouseEvent_Cancel),
         OnKeyboardEvent None]))
     = [SetWindowsHookEx WH_KEYBOARD_LL, SetWindowsHookEx WH_MOUSE_LL, UnhookWindowsHookEx 7]"
  by (simp add: os_always_def newMessageLoop_def loop_init_def run_calls_def
        call_and_accept_def SetOnKeyboardEvent_def SetOnMouseEvent_def
        setKeyboardEvent_def setMouseEvent_def updateEvents_def startLoop_def snapshot_def
        receive_def reconcile_def allNil_def hookKeyboard_def hookMouse_def hookClipboard_def
        Let_def)

text \<open>
  Claim C1. After the pump thread has accepted the snapshot of a registration call, each
  category's handle is present if and only if its callback in the snapshot is present;
  in particular, setting all three callbacks to nil removes every installed hook. The
  documentation of \<open>SetOnKeyboardEvent\<close> and \<open>SetOnMouseEvent\<close> says the same (set it
  to nil to stop listening), and the sibling path above does it. The code misses the
  case of the last callback: the wait \<open>for events.allNil()\<close> stands before the
  assignments and the three \<open>hook...()\<close> calls, so an all-nil snapshot is never
  reconciled. After \<open>SetOnKeyboardEvent(f)\<close> and then \<open>SetOnKeyboardEvent(nil)\<close>, both
  accepted by the pump thread, all three callbacks of the snapshot are nil, the call has
  returned (the channel is empty), and the keyboard hook handle 7 returned by the
  installation is still there; further steps of the pump thread do not remove it.
\<close>

theorem all_nil_snapshot_keeps_hook:
  "allNil (snapshot (fst (run_calls (os_always 7) (newMessageLoop, loop_init)
        [OnKeyboardEvent (Some KeyboardEvent_Cancel), OnKeyboardEvent None])))
   \<and> newEvents (fst (run_calls (os_always 7) (newMessageLoop, loop_init)
        [OnKeyboardEvent (Some KeyboardEvent_Cancel), OnKeyboardEvent None])) = []
   \<and> keyboardEvent (fst (run_calls (os_always 7) (newMessageLoop, loop_init)
        [OnKeyboardEvent (Some KeyboardEvent_Cancel), OnKeyboardEvent None])) = None
   \<and> keyboardHook (snd (run_calls (os_always 7) (newMessageLoop, loop_init)
        [OnKeyboardEvent (Some KeyboardEvent_Cancel), OnKeyboardEvent None])) = 7
   \<and> keyboardHook (snd (loop_step (os_always 7) True
        (loop_step (os_always 7) False
          (run_calls (os_always 7) (newMessageLoop, loop_init)
            [OnKeyboardEvent (Some KeyboardEvent_Cancel), OnKeyboardEvent None])))) \<noteq> 0"
  by (simp add: os_always_def newMessageLoop_def loop_init_def run_calls_def
        call_and_accept_def SetOnKeyboardEvent_def SetOnMouseEvent_def
        setKeyboardEvent_def setMouseEvent_def updateEvents_def startLoop_def snapshot_def
        receive_def reconcile_def allNil_def hookKeyboard_def hookMouse_def hookClipboard_def
        Let_def)

section \<open>Typing text\<close>

text \<open>
  Claim C9. \<open>Type(s)\<close> is \<open>TypeWithDelay(s, 1)\<close>, a delay of one nanosecond: for every
  string, operating system and history of actions, the two return the same error and
  the same sequence of \<open>SendInput\<close> and \<open>Sleep\<close> actions.
\<close>

theorem Type_is_TypeWithDelay_1: "Type os s tr = TypeWithDelay os s 1 tr"
  by (simp add: Type_def)

section \<open>Capturing monitors\<close>

lemma hull_loop_fold:
  "hull_loop ms (l, t, r, b) = (l', t', r', b') \<Longrightarrow>
     sint l' = fold min (map (\<lambda>m. sint (Rectangle.X m)) ms) (sint l)
   \<and> sint t' = fold min (map (\<lambda>m. sint (Rectangle.Y m)) ms) (sint t)
   \<and> sint r' = fold max (map (\<lambda>m. sint (Rectangle.X m + Width m)) ms) (sint r)
   \<and> sint b' = fold max (map (\<lambda>m. sint (Rectangle.Y m + Height m)) ms) (sint b)"
proof (induction ms arbitrary: l t r b)
  case Nil
  then show ?case by simp
next
  case (Cons m ms)
  have eq: "sint (if Rectangle.X m <s l then Rectangle.X m else l) = min (sint (Rectangle.X m)) (sint l)"
    "sint (if Rectangle.Y m <s t then Rectangle.Y m else t) = min (sint (Rectangle.Y m)) (sint t)"
    "sint (if r <s Rectangle.X m + Width m then Rectangle.X m + Width m else r)
       = max (sint (Rectangle.X m + Width m)) (sint r)"
    "sint (if b <s Rectangle.Y m + Height m then Rectangle.Y m + Height m else b)
       = max (sint (Rectangle.Y m + Height m)) (sint b)"
    by (simp_all add: word_sless_alt min_def max_def)
  from Cons.prems have
    "hull_loop ms
       (if Rectangle.X m <s l then Rectangle.X m else l,
        if Rectangle.Y m <s t then Rectangle.Y m else t,
        if r <s Rectangle.X m + Width m then Rectangle.X m + Width m else r,
        if b <s Rectangle.Y m + Height m then Rectangle.Y m + Height m else b)
     = (l', t', r', b')"
    by (simp add: Let_def)
  from Cons.IH [OF this] show ?case
    unfolding eq by simp
qed

lemma fold_min_Min: "fold min (map f ms) a = Min (insert a (f ` set ms))" for a :: int
  using Min.set_eq_fold [of a "map f ms"] by simp

lemma fold_max_Max: "fold max (map f ms) a = Max (insert a (f ` set ms))" for a :: int
  using Max.set_eq_fold [of a "map f ms"] by simp

text \<open>
  Claim C10. \<open>CaptureMonitors\<close> returns an error together with the empty image for the
  empty list. For a non-empty list it returns what \<open>CaptureScreen\<close> returns for the
  rectangle with left edge \<open>l\<close>, top edge \<open>t\<close>, width \<open>r - l\<close> and height
  \<open>b - t\<close>, where \<open>l\<close> and \<open>t\<close> are the least left and top edges of the monitors and
  \<open>r\<close> and \<open>b\<close> the greatest right (\<open>X + Width\<close>) and bottom (\<open>Y + Height\<close>)
  edges, all read as signed integers.
\<close>

theorem CaptureMonitors_hull:
  "CaptureMonitors cap [] = Return (Some RGBA_zero, Some ''now monitor given'')
   \<and> (monitors \<noteq> [] \<longrightarrow>
        (\<exists>l t r b.
           CaptureMonitors cap monitors = cap l t (r - l) (b - t)
           \<and> CaptureMonitors cap monitors
               = CaptureScreenRect cap \<lparr>X = l, Y = t, Width = r - l, Height = b - t\<rparr>
           \<and> sint l = Min ((\<lambda>m. sint (Rectangle.X m)) ` set monitors)
           \<and> sint t = Min ((\<lambda>m. sint (Rectangle.Y m)) ` set monitors)
           \<and> sint r = Max ((\<lambda>m. sint (Rectangle.X m + Width m)) ` set monitors)
           \<and> sint b = Max ((\<lambda>m. sint (Rectangle.Y m + Height m)) ` set monitors)))"
proof (intro conjI impI)
  show "CaptureMonitors cap [] = Return (Some RGBA_zero, Some ''now monitor given'')"
    by (simp add: CaptureMonitors_def)
next
  assume "monitors \<noteq> []"
  then obtain m0 ms where ms: "monitors = m0 # ms" by (cases monitors) auto
  obtain l t r b where h:
    "hull_loop (m0 # ms)
       (Rectangle.X m0, Rectangle.Y m0, Rectangle.X m0 + Width m0, Rectangle.Y m0 + Height m0)
     = (l, t, r, b)"
    using prod_cases4 by blast
  have c: "CaptureMonitors cap monitors
             = CaptureScreenRect cap \<lparr>X = l, Y = t, Width = r - l, Height = b - t\<rparr>"
    unfolding ms CaptureMonitors_def using h by (simp del: hull_loop.simps)
  have d: "CaptureScreenRect cap \<lparr>X = l, Y = t, Width = r - l, Height = b - t\<rparr>
             = cap l t (r - l) (b - t)"
    by (simp add: CaptureScreenRect_def)
  from hull_loop_fold [OF h]
  have e: "sint l = Min ((\<lambda>m. sint (Rectangle.X m)) ` set monitors)"
    "sint t = Min ((\<lambda>m. sint (Rectangle.Y m)) ` set monitors)"
    "sint r = Max ((\<lambda>m. sint (Rectangle.X m + Width m)) ` set monitors)"
    "sint b = Max ((\<lambda>m. sint (Rectangle.Y m + Height m)) ` set monitors)"
    unfolding ms by (simp_all add: fold_min_Min fold_max_Max)
  show "\<exists>l t r b.
           CaptureMonitors cap monitors = cap l t (r - l) (b - t)
           \<and> CaptureMonitors cap monitors
               = CaptureScreenRect cap \<lparr>X = l, Y = t, Width = r - l, Height = b - t\<rparr>
           \<and> sint l = Min ((\<lambda>m. sint (Rectangle.X m)) ` set monitors)
           \<and> sint t = Min ((\<lambda>m. sint (Rectangle.Y m)) ` set monitors)
           \<and> sint r = Max ((\<lambda>m. sint (Rectangle.X m + Width m)) ` set monitors)
           \<and> sint b = Max ((\<lambda>m. sint (Rectangle.Y m + Height m)) ` set monitors)"
    apply (rule exI [of _ l])
    apply (rule exI [of _ t])
    apply (rule exI [of _ r])
    apply (rule exI [of _ b])
    apply (simp only: c d e)
    done
qed

theorem CaptureMonitors_hull_witness:
  "[\<lparr>X = 0, Y = 0, Width = 1920, Height = 1080,
      WorkArea = \<lparr>X = 0, Y = 0, Width = 1920, Height = 1040\<rparr>, Primary = True\<rparr>,
     \<lparr>X = - 1280, Y = 56, Width = 1280, Height = 1024,
      WorkArea = \<lparr>X = - 1280, Y = 56, Width = 1280, Height = 984\<rparr>, Primary = False\<rparr>] \<noteq> []
   \<and> CaptureMonitors (\<lambda>x y w h. Return (Some \<lparr>Pix = [], Stride = 4 * w, Rect = (x, y, x + w, y + h)\<rparr>, None))
       [\<lparr>X = 0, Y = 0, Width = 1920, Height = 1080,
         WorkArea = \<lparr>X = 0, Y = 0, Width = 1920, Height = 1040\<rparr>, Primary = True\<rparr>,
        \<lparr>X = - 1280, Y = 56, Width = 1280, Height = 1024,
         WorkArea = \<lparr>X = - 1280, Y = 56, Width = 1280, Height = 984\<rparr>, Primary = False\<rparr>]
     = Return (Some \<lparr>Pix = [], Stride = 12800, Rect = (- 1280, 0, 1920, 1080)\<rparr>, None)"
  using CaptureMonitors_hull [where cap = "\<lambda>x y w h. Return (Some \<lparr>Pix = [], Stride = 4 * w, Rect = (x, y, x + w, y + h)\<rparr>, None)"
      and monitors = "[\<lparr>X = 0, Y = 0, Width = 1920, Height = 1080,
         WorkArea = \<lparr>X = 0, Y = 0, Width = 1920, Height = 1040\<rparr>, Primary = True\<rparr>,
        \<lparr>X = - 1280, Y = 56, Width = 1280, Height = 1024,
         WorkArea = \<lparr>X = - 1280, Y = 56, Width = 1280, Height = 984\<rparr>, Primary = False\<rparr>]"]
  by (simp add: CaptureMonitors_def CaptureScreenRect_def Let_def word_sless_alt)

end
